theory Spec2Isabelle
  imports Complex_Main "HOL-Library.Char_ord" "HOL-Library.List_Lexorder"
begin

section \<open>Python values and exceptions\<close>

text \<open>
  The code is dynamically typed Python. Where the source lets a value of one kind flow
  into a parameter meant for another kind, the model keeps the value in \<open>pyval\<close>.
\<close>

datatype pyval = PyNone | PyInt int | PyStr string

datatype py_error =
    AttributeError string
  | ValueError string
  | IndexError
  | KeyError string
  | ConnectivityError string
  | DecodeError string
  | SSHException string
  | SocketError string
  | ProgrammingError string

text \<open>Truthiness of an optional string (\<open>None\<close> and \<open>''\<close> are false).\<close>

fun truthy :: "string option \<Rightarrow> bool" where
  "truthy None = False"
| "truthy (Some s) = (s \<noteq> [])"

fun pyval_of_host :: "string option \<Rightarrow> pyval" where
  "pyval_of_host None = PyNone"
| "pyval_of_host (Some s) = PyStr s"

text \<open>\<open>int(x)\<close> on a float truncates towards zero.\<close>

definition py_int :: "rat \<Rightarrow> int" where
  "py_int x = (if 0 \<le> x then \<lfloor>x\<rfloor> else \<lceil>x\<rceil>)"

text \<open>\<open>os.path.basename\<close> and \<open>os.path.join\<close> on POSIX paths (two components).\<close>

definition basename :: "string \<Rightarrow> string" where
  "basename p = rev (takeWhile (\<lambda>c. c \<noteq> CHR ''/'') (rev p))"

definition path_join :: "string \<Rightarrow> string \<Rightarrow> string" where
  "path_join a b =
     (if b \<noteq> [] \<and> hd b = CHR ''/'' then b
      else if a = [] \<or> last a = CHR ''/'' then a @ b
      else a @ ''/'' @ b)"

section \<open>Collector (provider/common/resources.py)\<close>

subsection \<open>Data\<close>

text \<open>A telemetry file as it exists on a remote node.\<close>

record remote_file =
  r_path :: string
  r_size :: int
  r_atime :: int
  r_mtime :: int

text \<open>
  The namedtuple \<open>FileInfo\<close> built by \<open>_collectl_files\<close>. Its field list in the source
  is \<open>["atime", "mtine", "size", "path"]\<close>.
\<close>

record FileInfo =
  fi_atime :: int
  fi_mtine :: int
  fi_size :: int
  fi_path :: string

text \<open>Attribute access on the namedtuple: a name outside the field list raises.\<close>

definition FileInfo_getattr :: "FileInfo \<Rightarrow> string \<Rightarrow> py_error + pyval" where
  "FileInfo_getattr c name =
     (if name = ''atime'' then Inr (PyInt (fi_atime c))
      else if name = ''mtine'' then Inr (PyInt (fi_mtine c))
      else if name = ''size'' then Inr (PyInt (fi_size c))
      else if name = ''path'' then Inr (PyStr (fi_path c))
      else Inl (AttributeError name))"

text \<open>The local cache directory: path to modification time, access time and size.\<close>

record local_file =
  l_atime :: rat
  l_mtime :: rat
  l_size :: int

type_synonym local_fs = "string \<rightharpoonup> local_file"

datatype host_key_policy = AutoAddPolicy | RejectPolicy

text \<open>
  What \<open>_get_ssh_client\<close> configures before connecting: the arguments given to
  \<open>utils.SSHClient\<close>, the missing-host-key policy, the known-hosts file and the bastion
  given to \<open>connect\<close>.
\<close>

record ssh_client =
  c_host :: string
  c_user :: string
  c_port :: pyval
  c_policy :: host_key_policy
  c_known_hosts :: string
  c_bastion :: "string option"

record node =
  preferred_ip :: "string option"
  image_user :: string
  user_key_private :: string

text \<open>The Collector's own fields: the cluster's nodes, its known-hosts file, the cache directory.\<close>

record collector =
  cl_nodes :: "node list"
  cl_known_hosts_file :: string
  cl_output :: string

text \<open>
  Everything outside the process: whether a handshake with a configured client succeeds,
  the telemetry files on each host, the output of the disk-space query, and the ICEL
  naming collaborator (\<open>stack_name\<close>, \<open>instances\<close>).
\<close>

record world =
  w_connect :: "ssh_client \<Rightarrow> py_error option"
  w_files :: "string \<Rightarrow> remote_file list"
  w_disk_space :: "string \<Rightarrow> string list"
  w_stack_name :: "string option \<Rightarrow> string option"
  w_instances :: "string \<Rightarrow> (string \<times> string) list"

datatype event =
    AgentEnter "string set"
  | AgentExit
  | Connect ssh_client
  | Download string string "int \<times> int"
  | Close string

record cstate =
  cache :: local_fs
  trace :: "event list"

definition log_event :: "event \<Rightarrow> cstate \<Rightarrow> cstate" where
  "log_event e st = st\<lparr>trace := trace st @ [e]\<rparr>"

subsection \<open>Remote access session\<close>

text \<open>
  Modelled from the spec: \<open>utils.SSHClient.stat\<close>, which is not among the sources. It
  runs the remote \<open>stat\<close> with the given format sequence and returns, for each file,
  the fields in the order of the format. The Collector passes
  \<open>("%s", "%X", "%Y", "%n")\<close>: size, access time, modification time, name.
\<close>

definition stat :: "world \<Rightarrow> ssh_client \<Rightarrow> (int \<times> int \<times> int \<times> string) list" where
  "stat w c = map (\<lambda>f. (r_size f, r_atime f, r_mtime f, r_path f)) (w_files w (c_host c))"

text \<open>
  Modelled from the spec: \<open>utils.SSHClient.download_file\<close>, which is not among the
  sources. It transfers the file and sets the local access and modification times to
  the pair \<open>utime\<close>.
\<close>

definition download_file ::
  "world \<Rightarrow> ssh_client \<Rightarrow> string \<Rightarrow> string \<Rightarrow> int \<times> int \<Rightarrow> cstate \<Rightarrow> cstate" where
  "download_file w c remote destination utime st =
     (case find (\<lambda>f. r_path f = remote) (w_files w (c_host c)) of
        None \<Rightarrow> log_event (Download remote destination utime) st
      | Some f \<Rightarrow>
          log_event (Download remote destination utime)
            (st\<lparr>cache := (cache st)(destination \<mapsto>
                  \<lparr>l_atime = of_int (fst utime), l_mtime = of_int (snd utime),
                   l_size = r_size f\<rparr>)\<rparr>))"

subsection \<open>The Collector's methods\<close>

definition get_ssh_client ::
  "world \<Rightarrow> collector \<Rightarrow> string \<Rightarrow> string \<Rightarrow> pyval \<Rightarrow> string option \<Rightarrow> py_error + ssh_client" where
  "get_ssh_client w self host user port bastion_host =
     (let policy = (if truthy bastion_host then AutoAddPolicy else RejectPolicy);
          ssh = \<lparr>c_host = host, c_user = user, c_port = port, c_policy = policy,
                 c_known_hosts = cl_known_hosts_file self, c_bastion = bastion_host\<rparr>
      in case w_connect w ssh of Some e \<Rightarrow> Inl e | None \<Rightarrow> Inr ssh)"

definition collectl_files :: "(int \<times> int \<times> int \<times> string) list \<Rightarrow> FileInfo list" where
  "collectl_files stats =
     map (\<lambda>(f0, f1, f2, f3).
            (let access_time = f0; modified_time = f1; fsize = f2
             in \<lparr>fi_atime = access_time, fi_mtine = modified_time, fi_size = fsize,
                 fi_path = f3\<rparr>))
         stats"

definition is_different :: "local_fs \<Rightarrow> string \<Rightarrow> FileInfo \<Rightarrow> bool" where
  "is_different fs path remote =
     (case fs path of
        None \<Rightarrow> True
      | Some f \<Rightarrow>
          if py_int (l_mtime f) \<noteq> fi_mtine remote then True
          else if l_size f \<noteq> fi_size remote then True
          else False)"

text \<open>
  The loop of \<open>_collect\<close>. The arguments of the download call are evaluated before
  the call: \<open>collectl.path\<close>, then \<open>collectl.atime\<close>, then \<open>collectl.mtime\<close>. An
  attribute that exists holds an integer here, so the two branches for another kind of
  value are never taken; they only make the function total.
\<close>

fun collect_loop ::
  "world \<Rightarrow> collector \<Rightarrow> ssh_client \<Rightarrow> FileInfo list \<Rightarrow> cstate \<Rightarrow> py_error option \<times> cstate" where
  "collect_loop w self c [] st = (None, st)"
| "collect_loop w self c (collectl # rest) st =
     (let destination = path_join (cl_output self) (basename (fi_path collectl))
      in if \<not> is_different (cache st) destination collectl
         then collect_loop w self c rest st
         else (case FileInfo_getattr collectl ''atime'' of
                 Inr (PyInt a) \<Rightarrow>
                   (case FileInfo_getattr collectl ''mtime'' of
                      Inr (PyInt m) \<Rightarrow>
                        collect_loop w self c rest
                          (download_file w c (fi_path collectl) destination (a, m) st)
                    | Inr _ \<Rightarrow> (Some (ValueError ''utime''), st)
                    | Inl e \<Rightarrow> (Some e, st))
               | Inr _ \<Rightarrow> (Some (ValueError ''utime''), st)
               | Inl e \<Rightarrow> (Some e, st)))"

text \<open>
  \<open>_collect(host, user, bastion_host=None)\<close> calls
  \<open>self._get_ssh_client(host, user, bastion_host)\<close>: three positional arguments to a
  method whose parameters are \<open>(host, user, port=22, bastion_host=None)\<close>.
\<close>

definition collect ::
  "world \<Rightarrow> collector \<Rightarrow> string \<Rightarrow> string \<Rightarrow> string option \<Rightarrow> cstate \<Rightarrow> py_error option \<times> cstate" where
  "collect w self host user bastion_host st =
     (case get_ssh_client w self host user (pyval_of_host bastion_host) None of
        Inl e \<Rightarrow> (Some e, st)
      | Inr c \<Rightarrow>
          (case collect_loop w self c (collectl_files (stat w c)) (log_event (Connect c) st) of
             (Some e, st') \<Rightarrow> (Some e, st')
           | (None, st') \<Rightarrow> (None, log_event (Close (c_host c)) st')))"

definition management_target ::
  "world \<Rightarrow> collector \<Rightarrow> cstate \<Rightarrow> (py_error + string option) \<times> cstate" where
  "management_target w self st =
     (case cl_nodes self of
        [] \<Rightarrow> (Inl IndexError, st)
      | n # _ \<Rightarrow>
          (case preferred_ip n of
             None \<Rightarrow> (Inr None, st)
           | Some ip \<Rightarrow>
               if ip = [] then (Inr None, st)
               else (case get_ssh_client w self ip (image_user n) (PyInt 22) None of
                       Inl e \<Rightarrow> (Inl e, st)
                     | Inr c \<Rightarrow>
                         (let disk_info = w_disk_space w ip;
                              st' = log_event (Close ip) (log_event (Connect c) st)
                          in (Inr (case disk_info of
                                     [] \<Rightarrow> None
                                   | d # _ \<Rightarrow> Some (takeWhile (\<lambda>ch. ch \<noteq> CHR '':'') d)),
                              st')))))"

definition NATDevice :: string where
  "NATDevice = ''NATDevice''"

fun lustre_loop ::
  "world \<Rightarrow> collector \<Rightarrow> (string \<times> string) list \<Rightarrow> (string \<times> string) list \<Rightarrow> cstate
     \<Rightarrow> py_error option \<times> cstate" where
  "lustre_loop w self icel_hosts [] st = (None, st)"
| "lustre_loop w self icel_hosts ((name, host) # rest) st =
     (if name = NATDevice then lustre_loop w self icel_hosts rest st
      else (case map_of icel_hosts NATDevice of
              None \<Rightarrow> (Some (KeyError NATDevice), st)
            | Some bastion \<Rightarrow>
                (case collect w self host ''ec2-user'' (Some bastion) st of
                   (Some e, st') \<Rightarrow> (Some e, st')
                 | (None, st') \<Rightarrow> lustre_loop w self icel_hosts rest st')))"

definition fetch_collectl_lustre ::
  "world \<Rightarrow> collector \<Rightarrow> cstate \<Rightarrow> py_error option \<times> cstate" where
  "fetch_collectl_lustre w self st =
     (case management_target w self st of
        (Inl e, st') \<Rightarrow> (Some e, st')
      | (Inr target, st') \<Rightarrow>
          (case w_stack_name w target of
             None \<Rightarrow> (None, st')
           | Some stack_name \<Rightarrow>
               if stack_name = [] then (None, st')
               else (let icel_hosts = w_instances w stack_name
                     in lustre_loop w self icel_hosts icel_hosts st')))"

definition available_nodes :: "collector \<Rightarrow> node list" where
  "available_nodes self = filter (\<lambda>n. truthy (preferred_ip n)) (cl_nodes self)"

definition private_keys :: "collector \<Rightarrow> string set" where
  "private_keys self = set (map user_key_private (cl_nodes self))"

text \<open>The address of an available node (such a node has a non-empty address).\<close>

definition ip_of :: "node \<Rightarrow> string" where
  "ip_of n = (case preferred_ip n of Some ip \<Rightarrow> ip | None \<Rightarrow> [])"

text \<open>The loop of \<open>run\<close> over the available nodes; an exception ends it.\<close>

fun collect_nodes ::
  "world \<Rightarrow> collector \<Rightarrow> node list \<Rightarrow> cstate \<Rightarrow> py_error option \<times> cstate" where
  "collect_nodes w self [] st = (None, st)"
| "collect_nodes w self (n # ns) st =
     (case collect w self (ip_of n) (image_user n) None st of
        (Some e, st') \<Rightarrow> (Some e, st')
      | (None, st') \<Rightarrow> collect_nodes w self ns st')"

text \<open>
  \<open>run\<close>: inside the key-agent scope, collect from every available node, then run the
  shared-filesystem pass. The scope is left on every path (Modelled from the spec:
  \<open>utils.SSHAgent\<close>, which is not among the sources, adds the keys on entry and
  removes them on exit, and lets an exception pass).
\<close>

definition Collector_run :: "world \<Rightarrow> collector \<Rightarrow> cstate \<Rightarrow> py_error option \<times> cstate" where
  "Collector_run w self st =
     (case collect_nodes w self (available_nodes self)
             (log_event (AgentEnter (private_keys self)) st) of
        (Some e, st') \<Rightarrow> (Some e, log_event AgentExit st')
      | (None, st') \<Rightarrow>
          (case fetch_collectl_lustre w self st' of
             (r, st'') \<Rightarrow> (r, log_event AgentExit st'')))"

section \<open>Parser (provider/common/resources.py)\<close>

text \<open>The namedtuple \<open>Time\<close> with fields \<open>start\<close>, \<open>end\<close>, \<open>steps\<close>.\<close>

record 'k Time =
  tf_start :: 'k
  tf_end :: 'k
  tf_steps :: "'k list"

text \<open>\<open>min\<close> and \<open>max\<close> of a sequence; an empty sequence raises \<open>ValueError\<close>.\<close>

definition py_min :: "'a::linorder list \<Rightarrow> py_error + 'a" where
  "py_min xs =
     (case xs of
        [] \<Rightarrow> Inl (ValueError ''min() arg is an empty sequence'')
      | x # r \<Rightarrow> Inr (fold min r x))"

definition py_max :: "'a::linorder list \<Rightarrow> py_error + 'a" where
  "py_max xs =
     (case xs of
        [] \<Rightarrow> Inl (ValueError ''max() arg is an empty sequence'')
      | x # r \<Rightarrow> Inr (fold max r x))"

text \<open>
  \<open>_time_frame\<close>. The dictionary returned by \<open>graph.get_bcbio_timings\<close> (an external
  library) is an association list in iteration order; \<open>steps\<close> is its list of keys.
\<close>

definition time_frame :: "('k::linorder \<times> 'v) list \<Rightarrow> py_error + 'k Time" where
  "time_frame bcbio_timings =
     (let steps = map fst bcbio_timings
      in case py_min steps of
           Inl e \<Rightarrow> Inl e
         | Inr lo \<Rightarrow>
             (case py_max steps of
                Inl e \<Rightarrow> Inl e
              | Inr hi \<Rightarrow> Inr \<lparr>tf_start = lo, tf_end = hi, tf_steps = steps\<rparr>))"

definition COLLECTL_SUFFIX :: string where
  "COLLECTL_SUFFIX = ''.raw.gz''"

definition endswith :: "string \<Rightarrow> string \<Rightarrow> bool" where
  "endswith s suf = (length suf \<le> length s \<and> drop (length s - length suf) s = suf)"

definition is_digit :: "char \<Rightarrow> bool" where
  "is_digit c = (CHR ''0'' \<le> c \<and> c \<le> CHR ''9'')"

text \<open>A whole string matching \<open>-\d{8}-\d{6}\.raw\.gz\<close> (23 characters).\<close>

definition matches_stamp :: "string \<Rightarrow> bool" where
  "matches_stamp s =
     (length s = 23 \<and> take 1 s = ''-'' \<and> list_all is_digit (take 8 (drop 1 s))
      \<and> take 1 (drop 9 s) = ''-'' \<and> list_all is_digit (take 6 (drop 10 s))
      \<and> drop 16 s = ''.raw.gz'')"

text \<open>
  \<open>re.sub(r'-\d{8}-\d{6}\.raw\.gz$', '', collectl_file)\<close>. The pattern has a fixed
  length and \<open>$\<close> matches at the end of the string or just before a newline that ends
  the string, so there is at most one match.
\<close>

definition host_key :: "string \<Rightarrow> string" where
  "host_key s =
     (let n = length s
      in if 23 \<le> n \<and> matches_stamp (drop (n - 23) s) then take (n - 23) s
         else if 24 \<le> n \<and> last s = CHR 0x0A \<and> matches_stamp (take 23 (drop (n - 24) s))
           then take (n - 24) s @ [CHR 0x0A]
         else s)"

text \<open>
  The external decoder \<open>graph.load_collectl(path, start, end)\<close>: it raises or returns
  the rows (a data frame, as the list of its rows) and the hardware facts.
\<close>

type_synonym ('k, 'r, 'h) decoder = "string \<Rightarrow> 'k \<Rightarrow> 'k \<Rightarrow> py_error + ('r list \<times> 'h)"

text \<open>The loop of \<open>Parser.run\<close> over the sorted directory listing.\<close>

fun parse_loop ::
  "('k, 'r, 'h) decoder \<Rightarrow> string \<Rightarrow> 'k Time \<Rightarrow> string list
     \<Rightarrow> (string \<rightharpoonup> 'r list) \<times> (string \<rightharpoonup> 'h)
     \<Rightarrow> py_error + ((string \<rightharpoonup> 'r list) \<times> (string \<rightharpoonup> 'h))" where
  "parse_loop load_collectl rawdir tf [] acc = Inr acc"
| "parse_loop load_collectl rawdir tf (collectl_file # rest) (data_frames, hardware_info) =
     (if \<not> endswith collectl_file COLLECTL_SUFFIX
      then parse_loop load_collectl rawdir tf rest (data_frames, hardware_info)
      else (case load_collectl (path_join rawdir collectl_file) (tf_start tf) (tf_end tf) of
              Inl e \<Rightarrow> Inl e
            | Inr (data, hardware) \<Rightarrow>
                if length data = 0
                then parse_loop load_collectl rawdir tf rest (data_frames, hardware_info)
                else (let host = host_key collectl_file;
                          hardware_info' = hardware_info(host \<mapsto> hardware)
                      in case data_frames host of
                           None \<Rightarrow>
                             parse_loop load_collectl rawdir tf rest
                               (data_frames(host \<mapsto> data), hardware_info')
                         | Some old \<Rightarrow>
                             parse_loop load_collectl rawdir tf rest
                               (data_frames(host \<mapsto> old @ data), hardware_info'))))"

definition Parser_run ::
  "('k::linorder, 'r, 'h) decoder \<Rightarrow> ('k \<times> 'v) list \<Rightarrow> string \<Rightarrow> string list
     \<Rightarrow> py_error + ((string \<rightharpoonup> 'r list) \<times> (string \<rightharpoonup> 'h) \<times> 'k list)" where
  "Parser_run load_collectl bcbio_timings rawdir listdir =
     (case time_frame bcbio_timings of
        Inl e \<Rightarrow> Inl e
      | Inr tf \<Rightarrow>
          (case parse_loop load_collectl rawdir tf (sort listdir) (Map.empty, Map.empty) of
             Inl e \<Rightarrow> Inl e
           | Inr (data_frames, hardware_info) \<Rightarrow>
               Inr (data_frames, hardware_info, tf_steps tf)))"

text \<open>The rows a file contributes: what the decoder returns for it inside the window.\<close>

definition rows_of :: "('k, 'r, 'h) decoder \<Rightarrow> string \<Rightarrow> 'k Time \<Rightarrow> string \<Rightarrow> 'r list" where
  "rows_of load_collectl rawdir tf f =
     (case load_collectl (path_join rawdir f) (tf_start tf) (tf_end tf) of
        Inl e \<Rightarrow> []
      | Inr (data, hardware) \<Rightarrow> data)"

section \<open>Remote execution (provider/base.py)\<close>

text \<open>
  A paramiko connection: \<open>exec_command\<close> raises or returns the three channel files;
  reading a channel file raises or returns its content.
\<close>

type_synonym channel_file = "py_error + string"

type_synonym connection = "string \<Rightarrow> py_error + (channel_file \<times> channel_file \<times> channel_file)"

text \<open>The exceptions that \<open>except paramiko.SSHException\<close> catches.\<close>

fun is_SSHException :: "py_error \<Rightarrow> bool" where
  "is_SSHException (SSHException m) = True"
| "is_SSHException _ = False"

text \<open>
  \<open>_execute_remote\<close>. The result is the pair the method returns: the first slot is the
  output or \<open>None\<close>, the second the error output or the caught exception.
\<close>

definition execute_remote ::
  "connection \<Rightarrow> string \<Rightarrow> py_error + (string option \<times> (py_error + string))" where
  "execute_remote connection command =
     (case connection command of
        Inl exc \<Rightarrow> if is_SSHException exc then Inr (None, Inl exc) else Inl exc
      | Inr (stdin, stdout, stderr) \<Rightarrow>
          (case stdout of
             Inl e \<Rightarrow> Inl e
           | Inr out \<Rightarrow>
               (case stderr of
                  Inl e \<Rightarrow> Inl e
                | Inr err \<Rightarrow> Inr (Some out, Inr err))))"

section \<open>Azure security groups (provider/azure)\<close>

datatype level = Info | Warning | Error | Exception

type_synonym log = "(level \<times> string) list"

record response =
  status_code :: int
  resp_text :: string

text \<open>An element tree: tag, text, children.\<close>

datatype xml = Element string "string option" "xml list"

fun xml_tag :: "xml \<Rightarrow> string" where
  "xml_tag (Element t x cs) = t"

fun xml_text :: "xml \<Rightarrow> string option" where
  "xml_text (Element t x cs) = x"

fun xml_children :: "xml \<Rightarrow> xml list" where
  "xml_children (Element t x cs) = cs"

definition azure_tag :: "string \<Rightarrow> string" where
  "azure_tag n = ''{http://schemas.microsoft.com/windowsazure}'' @ n"

definition findall :: "xml \<Rightarrow> string \<Rightarrow> xml list" where
  "findall xroot t = filter (\<lambda>e. xml_tag e = t) (xml_children xroot)"

definition find_child :: "xml \<Rightarrow> string \<Rightarrow> xml option" where
  "find_child e t = find (\<lambda>c. xml_tag c = t) (xml_children e)"

text \<open>
  A Python set of names, kept as a list without repetition (the iteration order of a set
  is not fixed by Python; nothing below depends on it).
\<close>

definition set_add :: "'a \<Rightarrow> 'a list \<Rightarrow> 'a list" where
  "set_add x xs = (if x \<in> set xs then xs else xs @ [x])"

fun sg_names :: "xml list \<Rightarrow> string option list \<Rightarrow> string option list" where
  "sg_names [] output = output"
| "sg_names (security_group # rest) output =
     (case find_child security_group (azure_tag ''Name'') of
        None \<Rightarrow> sg_names rest output
      | Some name \<Rightarrow> sg_names rest (set_add (xml_text name) output))"

text \<open>
  \<open>AzureAPI.security_groups\<close>, given the response of the HTTP request and the XML
  parser (\<open>None\<close> when \<open>ElementTree.fromstring\<close> raises \<open>ParseError\<close>).
\<close>

definition security_groups ::
  "(string \<Rightarrow> xml option) \<Rightarrow> response \<Rightarrow> log \<Rightarrow> string option list \<times> log" where
  "security_groups fromstring resp lg =
     (if status_code resp = 200
      then (case fromstring (resp_text resp) of
              None \<Rightarrow> ([], lg @ [(Exception, ''ParseError'')])
            | Some xroot \<Rightarrow>
                (sg_names (findall xroot (azure_tag ''NetworkSecurityGroup'')) [], lg))
      else ([], lg @ [(Error, ''Failed to get security groups !'')]))"

record report_section =
  s_name :: string
  s_title :: string
  s_fields :: "(string \<times> string) list"
  s_items :: "string option list"

type_synonym report = "report_section list"

text \<open>
  Modelled from the spec: \<open>objects.Report.add_section\<close>, which is not among the
  sources. It registers a new section; the name must be unique within the document, and
  a duplicate is a programming error that surfaces at once.
\<close>

definition add_section :: "string \<Rightarrow> string \<Rightarrow> report \<Rightarrow> py_error + report" where
  "add_section name title rep =
     (if name \<in> set (map s_name rep) then Inl (ProgrammingError name)
      else Inr (rep @ [\<lparr>s_name = name, s_title = title, s_fields = [], s_items = []\<rparr>]))"

text \<open>
  Modelled from the spec: \<open>add_field\<close> appends a column to the section's schema and
  \<open>add_items\<close> appends rows to the section; they are not among the sources.
\<close>

definition add_field :: "string \<Rightarrow> string \<times> string \<Rightarrow> report \<Rightarrow> report" where
  "add_field name field rep =
     map (\<lambda>s. if s_name s = name then s\<lparr>s_fields := s_fields s @ [field]\<rparr> else s) rep"

definition add_items :: "string \<Rightarrow> string option list \<Rightarrow> report \<Rightarrow> report" where
  "add_items name rows rep =
     map (\<lambda>s. if s_name s = name then s\<lparr>s_items := s_items s @ rows\<rparr> else s) rep"

text \<open>\<open>Report.add_security_groups_info\<close>.\<close>

definition add_security_groups_info ::
  "(string \<Rightarrow> xml option) \<Rightarrow> response \<Rightarrow> string option \<Rightarrow> report \<times> log
     \<Rightarrow> py_error + (report \<times> log)" where
  "add_security_groups_info fromstring resp expected_sg_name st =
     (case add_section ''sg'' ''Security groups'' (fst st) of
        Inl e \<Rightarrow> Inl e
      | Inr rep1 \<Rightarrow>
          (let rep2 = add_field ''sg'' (''sg'', ''Security Group'') rep1;
               (sgs, lg1) = security_groups fromstring resp (snd st)
           in if sgs = [] then Inr (rep2, lg1 @ [(Warning, ''No security groups defined.'')])
              else (let lg2 = (if expected_sg_name \<in> set sgs
                               then lg1 @ [(Info, ''Expected security group exists.'')]
                               else lg1 @ [(Warning, ''Security group does not exist.'')])
                    in Inr (add_items ''sg'' sgs rep2, lg2))))"

section \<open>Concrete fleets\<close>

definition node_a :: node where
  "node_a = \<lparr>preferred_ip = Some ''10.0.0.1'', image_user = ''ubuntu'',
              user_key_private = ''key_a''\<rparr>"

definition node_b :: node where
  "node_b = \<lparr>preferred_ip = Some ''10.0.0.2'', image_user = ''ubuntu'',
              user_key_private = ''key_a''\<rparr>"

definition node_c :: node where
  "node_c = \<lparr>preferred_ip = Some ''10.0.0.3'', image_user = ''ubuntu'',
              user_key_private = ''key_a''\<rparr>"

definition web1_file :: remote_file where
  "web1_file = \<lparr>r_path = ''/var/log/collectl/web1-20230101-000000.raw.gz'',
                 r_size = 100, r_atime = 2000, r_mtime = 1000\<rparr>"

definition web1_local :: string where
  "web1_local = ''/cache/web1-20230101-000000.raw.gz''"

definition cluster1 :: collector where
  "cluster1 = \<lparr>cl_nodes = [node_a], cl_known_hosts_file = ''known_hosts'',
                cl_output = ''/cache''\<rparr>"

definition cluster3 :: collector where
  "cluster3 = \<lparr>cl_nodes = [node_a, node_b, node_c], cl_known_hosts_file = ''known_hosts'',
                cl_output = ''/cache''\<rparr>"

text \<open>One reachable node holding one telemetry file; no shared filesystem.\<close>

definition world1 :: world where
  "world1 = \<lparr>w_connect = (\<lambda>c. None),
              w_files = (\<lambda>h. if h = ''10.0.0.1'' then [web1_file] else []),
              w_disk_space = (\<lambda>h. []),
              w_stack_name = (\<lambda>t. None),
              w_instances = (\<lambda>s. [])\<rparr>"

text \<open>Three nodes: the second refuses the connection, the third holds a telemetry file.\<close>

definition world3 :: world where
  "world3 = \<lparr>w_connect = (\<lambda>c. if c_host c = ''10.0.0.2''
                                 then Some (ConnectivityError ''unreachable'') else None),
              w_files = (\<lambda>h. if h = ''10.0.0.3'' then [web1_file] else []),
              w_disk_space = (\<lambda>h. []),
              w_stack_name = (\<lambda>t. None),
              w_instances = (\<lambda>s. [])\<rparr>"

text \<open>
  One node with a Lustre mount whose stack has a NAT device and one metadata server; no
  host has telemetry files.
\<close>

definition world_lustre :: world where
  "world_lustre = \<lparr>w_connect = (\<lambda>c. None),
              w_files = (\<lambda>h. []),
              w_disk_space = (\<lambda>h. [''10.0.0.7@tcp:/scratch'']),
              w_stack_name = (\<lambda>t. if t = Some ''10.0.0.7@tcp'' then Some ''icel-stack''
                                   else None),
              w_instances = (\<lambda>s. [(''NATDevice'', ''54.0.0.9''), (''MGS'', ''10.0.1.5'')])\<rparr>"

definition st0 :: cstate where
  "st0 = \<lparr>cache = Map.empty, trace = []\<rparr>"

text \<open>A client without bastion, as \<open>_get_ssh_client\<close> configures it for these clusters.\<close>

definition client_of :: "string \<Rightarrow> string \<Rightarrow> pyval \<Rightarrow> ssh_client" where
  "client_of h u p = \<lparr>c_host = h, c_user = u, c_port = p, c_policy = RejectPolicy,
       c_known_hosts = ''known_hosts'', c_bastion = None\<rparr>"

text \<open>
  Two caches for the file of \<open>world1\<close>: one holds a copy with the remote file's own
  size (100) and modification time (1000); the other holds a file whose size is the
  remote modification time and whose modification time is the remote access time.
\<close>

definition st_identical :: cstate where
  "st_identical =
     \<lparr>cache = Map.empty(web1_local \<mapsto> \<lparr>l_atime = 2000, l_mtime = 1000, l_size = 100\<rparr>),
      trace = []\<rparr>"

definition st_swapped :: cstate where
  "st_swapped =
     \<lparr>cache = Map.empty(web1_local \<mapsto> \<lparr>l_atime = 100, l_mtime = 2000, l_size = 1000\<rparr>),
      trace = []\<rparr>"

definition web1_info :: FileInfo where
  "web1_info = \<lparr>fi_atime = 100, fi_mtine = 2000, fi_size = 1000,
                 fi_path = ''/var/log/collectl/web1-20230101-000000.raw.gz''\<rparr>"

section \<open>Vocabulary of the Parser's properties\<close>

text \<open>
  The telemetry files of a listing that belong to a host, in the order of the listing;
  appending rows to a series that may not exist yet; a decoder that returns only rows
  inside the bounds it is given.
\<close>

definition host_files :: "string list \<Rightarrow> string \<Rightarrow> string list" where
  "host_files files host =
     filter (\<lambda>f. endswith f COLLECTL_SUFFIX \<and> host_key f = host) files"

definition merge_rows :: "'r list option \<Rightarrow> 'r list \<Rightarrow> 'r list option" where
  "merge_rows old new =
     (if new = [] then old else case old of None \<Rightarrow> Some new | Some rows \<Rightarrow> Some (rows @ new))"

definition decoder_within :: "('k::linorder, 'r, 'h) decoder \<Rightarrow> ('r \<Rightarrow> 'k) \<Rightarrow> bool" where
  "decoder_within load_collectl row_time =
     (\<forall>p lo hi d h. load_collectl p lo hi = Inr (d, h) \<longrightarrow>
        (\<forall>r \<in> set d. lo \<le> row_time r \<and> row_time r \<le> hi))"

section \<open>Concrete timing logs, caches and decoders\<close>

text \<open>
  A timing log as the log decoder returns it, keyed by timestamp (the checkpoints a, b, c
  at 10, 50, 30); three telemetry files of the host web1; a decoder whose rows are their own timestamps, and one for which the
  second file is corrupt.
\<close>

definition timings_ts :: "(int \<times> string) list" where
  "timings_ts = [(10, ''a''), (50, ''b''), (30, ''c'')]"

definition w1a :: string where
  "w1a = ''web1-20230101-000000.raw.gz''"

definition w1m :: string where
  "w1m = ''web1-20230101-120000.raw.gz''"

definition w1b :: string where
  "w1b = ''web1-20230102-000000.raw.gz''"

definition window_load :: "(int, int, string) decoder" where
  "window_load p lo hi =
     (if p = ''/raw/web1-20230101-000000.raw.gz''
        then Inr (filter (\<lambda>t. lo \<le> t \<and> t \<le> hi) [5, 20, 40], ''2 cpus'')
      else if p = ''/raw/web1-20230101-120000.raw.gz''
        then Inr (filter (\<lambda>t. lo \<le> t \<and> t \<le> hi) [7, 8], ''3 cpus'')
      else if p = ''/raw/web1-20230102-000000.raw.gz''
        then Inr (filter (\<lambda>t. lo \<le> t \<and> t \<le> hi) [30, 45, 70], ''4 cpus'')
      else Inl (DecodeError p))"

definition corrupt_load :: "(int, int, string) decoder" where
  "corrupt_load p lo hi =
     (if p = ''/raw/web1-20230101-120000.raw.gz'' then Inl (DecodeError ''corrupt'')
      else window_load p lo hi)"

definition listing3 :: "string list" where
  "listing3 = [w1b, ''notes.txt'', w1m, w1a]"

section \<open>Concrete connections, responses and reports\<close>

definition reset_conn :: connection where
  "reset_conn command = Inl (SocketError ''Connection reset by peer'')"

definition closed_conn :: connection where
  "closed_conn command = Inl (SSHException ''Channel closed.'')"

definition home_conn :: connection where
  "home_conn command = Inr (Inr [], Inr ''/home/ubuntu'', Inr [])"

definition stalled_conn :: connection where
  "stalled_conn command = Inr (Inr [], Inl (SocketError ''timed out''), Inr [])"

definition no_parse :: "string \<Rightarrow> xml option" where
  "no_parse s = None"

definition sg_doc :: xml where
  "sg_doc = Element (azure_tag ''NetworkSecurityGroups'') None
     [Element (azure_tag ''NetworkSecurityGroup'') None
        [Element (azure_tag ''Name'') (Some ''bcbio-sg'') []],
      Element (azure_tag ''NetworkSecurityGroup'') None
        [Element (azure_tag ''Location'') (Some ''West US'') []],
      Element (azure_tag ''NetworkSecurityGroup'') None
        [Element (azure_tag ''Name'') (Some ''default'') []]]"

definition sg_parse :: "string \<Rightarrow> xml option" where
  "sg_parse s = (if s = ''<groups/>'' then Some sg_doc else None)"

definition sg_section :: "string option list \<Rightarrow> report_section" where
  "sg_section rows = \<lparr>s_name = ''sg'', s_title = ''Security groups'',
                        s_fields = [(''sg'', ''Security Group'')], s_items = rows\<rparr>"

definition cluster_section :: report_section where
  "cluster_section = \<lparr>s_name = ''cluster'', s_title = ''Cluster configuration'',
                        s_fields = [(''name'', ''name'')], s_items = [Some ''Frontend node'']\<rparr>"

section \<open>Evaluation rules for the concrete fleets\<close>

lemmas collector_eval =
  Collector_run_def collect_def get_ssh_client_def collectl_files_def stat_def
  is_different_def FileInfo_getattr_def log_event_def available_nodes_def private_keys_def
  ip_of_def path_join_def basename_def fetch_collectl_lustre_def management_target_def
  NATDevice_def download_file_def py_int_def
  node_a_def node_b_def node_c_def web1_file_def web1_local_def web1_info_def
  cluster1_def cluster3_def world1_def world3_def world_lustre_def st0_def client_of_def
  st_identical_def st_swapped_def

section \<open>The sync decision\<close>

text \<open>
  Over the descriptor it is given, \<open>_is_different\<close> says "download" exactly when no
  local file exists at the path, or the local modification time truncated to whole
  seconds differs from the descriptor's field \<open>mtine\<close>, or the local size differs from
  the descriptor's field \<open>size\<close>.
\<close>

lemma is_different_descriptor:
  "is_different fs path remote \<longleftrightarrow>
     (fs path = None
      \<or> (\<exists>f. fs path = Some f \<and> py_int (l_mtime f) \<noteq> fi_mtine remote)
      \<or> (\<exists>f. fs path = Some f \<and> l_size f \<noteq> fi_size remote))"
  by (auto simp: is_different_def split: option.splits)

text \<open>
  The descriptor the Collector builds for a remote file carries the remote size as
  \<open>atime\<close>, the remote access time as \<open>mtine\<close> and the remote modification time as
  \<open>size\<close>.
\<close>

lemma collectl_files_fields:
  "collectl_files (stat w c) =
     map (\<lambda>f. \<lparr>fi_atime = r_size f, fi_mtine = r_atime f, fi_size = r_mtime f,
                  fi_path = r_path f\<rparr>)
         (w_files w (c_host c))"
  by (simp add: collectl_files_def stat_def Let_def)

text \<open>
  C1. For the remote file of size 100, access time 2000 and modification time 1000, the
  decision of the Collector is not the claimed one. Against a local copy with the same
  modification time and the same size the decision is "download" (the run goes on to
  the download call and raises there); against a local file of another size (1000) and
  another modification time (2000) the decision is "skip" (the run completes and
  transfers nothing).
\<close>

theorem Collector_decision_not_by_remote_mtime_and_size:
  "collectl_files (stat world1 (client_of ''10.0.0.1'' ''ubuntu'' PyNone)) =
     [\<lparr>fi_atime = 100, fi_mtine = 2000, fi_size = 1000,
       fi_path = ''/var/log/collectl/web1-20230101-000000.raw.gz''\<rparr>]
   \<and> cache st_identical web1_local = Some \<lparr>l_atime = 2000, l_mtime = 1000, l_size = 100\<rparr>
   \<and> is_different (cache st_identical) web1_local web1_info
   \<and> fst (Collector_run world1 cluster1 st_identical) = Some (AttributeError ''mtime'')
   \<and> trace (snd (Collector_run world1 cluster1 st_identical)) =
       [AgentEnter {''key_a''}, Connect (client_of ''10.0.0.1'' ''ubuntu'' PyNone), AgentExit]
   \<and> cache st_swapped web1_local = Some \<lparr>l_atime = 100, l_mtime = 2000, l_size = 1000\<rparr>
   \<and> \<not> is_different (cache st_swapped) web1_local web1_info
   \<and> fst (Collector_run world1 cluster1 st_swapped) = None
   \<and> trace (snd (Collector_run world1 cluster1 st_swapped)) =
       [AgentEnter {''key_a''},
        Connect (client_of ''10.0.0.1'' ''ubuntu'' PyNone), Close ''10.0.0.1'',
        Connect (client_of ''10.0.0.1'' ''ubuntu'' (PyInt 22)), Close ''10.0.0.1'',
        AgentExit]"
  by (simp add: collector_eval)

section \<open>Running the Collector\<close>

lemma collectl_files_web1:
  "collectl_files (stat world1 (client_of ''10.0.0.1'' ''ubuntu'' PyNone)) = [web1_info]"
  by (simp add: collector_eval)

text \<open>
  C2. On a fleet of one reachable node with one telemetry file (size 100, access time
  2000, modification time 1000) and an empty cache, the first run decides to download
  the file and raises \<open>AttributeError\<close> for \<open>collectl.mtime\<close> before the transfer; the
  cache stays empty. The second run does the same, and the file still compares
  different.
\<close>

theorem Collector_run_twice_raises:
  "Collector_run world1 cluster1 st0 =
     (Some (AttributeError ''mtime''),
      \<lparr>cache = Map.empty,
       trace = [AgentEnter {''key_a''}, Connect (client_of ''10.0.0.1'' ''ubuntu'' PyNone),
                AgentExit]\<rparr>)
   \<and> Collector_run world1 cluster1 (snd (Collector_run world1 cluster1 st0)) =
     (Some (AttributeError ''mtime''),
      \<lparr>cache = Map.empty,
       trace = [AgentEnter {''key_a''}, Connect (client_of ''10.0.0.1'' ''ubuntu'' PyNone),
                AgentExit,
                AgentEnter {''key_a''}, Connect (client_of ''10.0.0.1'' ''ubuntu'' PyNone),
                AgentExit]\<rparr>)
   \<and> is_different (cache (snd (Collector_run world1 cluster1 st0))) web1_local web1_info"
  by (simp add: collector_eval)

text \<open>
  The descriptor built from the \<open>stat\<close> fields carries the remote size as \<open>atime\<close>, the
  remote access time as \<open>mtine\<close> and the remote modification time as \<open>size\<close>: a local
  copy with the file's real size, stamped with the descriptor's two times, still
  compares different.
\<close>

lemma downloaded_copy_still_different:
  "is_different
     (cache (download_file world1 (client_of ''10.0.0.1'' ''ubuntu'' PyNone)
               (fi_path web1_info) web1_local (fi_atime web1_info, fi_mtine web1_info) st0))
     web1_local web1_info"
  by (simp add: collector_eval)

subsection \<open>A node that cannot be reached\<close>

lemma collect_nodes_append:
  "collect_nodes w self pre st = (None, st1) \<Longrightarrow>
   collect_nodes w self (pre @ ns) st = collect_nodes w self ns st1"
  by (induction pre arbitrary: st) (auto split: prod.splits option.splits)

lemma collect_connect_fails:
  "w_connect w \<lparr>c_host = host, c_user = user, c_port = pyval_of_host b,
                 c_policy = RejectPolicy, c_known_hosts = cl_known_hosts_file self,
                 c_bastion = None\<rparr> = Some e \<Longrightarrow>
   collect w self host user b st = (Some e, st)"
  by (simp add: collect_def get_ssh_client_def)

text \<open>
  C3, as claimed, fails: with nodes A, B, C where B refuses the connection and C holds
  a telemetry file, the run ends with B's error; no session to C is opened and the cache
  stays empty.
\<close>

theorem Collector_run_unreachable_node_counterexample:
  "Collector_run world3 cluster3 st0 =
     (Some (ConnectivityError ''unreachable''),
      \<lparr>cache = Map.empty,
       trace = [AgentEnter {''key_a''}, Connect (client_of ''10.0.0.1'' ''ubuntu'' PyNone),
                Close ''10.0.0.1'', AgentExit]\<rparr>)"
  by (simp add: collector_eval)

text \<open>
  C3, amended. When the available nodes are \<open>pre\<close>, then \<open>b\<close>, then \<open>post\<close>, collection
  from \<open>pre\<close> completes and the connection to \<open>b\<close> fails with \<open>e\<close>, the run raises \<open>e\<close>:
  it leaves the key-agent scope with the cache and the sessions as they were after
  \<open>pre\<close>, and visits neither \<open>post\<close> nor the shared filesystem.
\<close>

theorem Collector_run_node_failure_propagates:
  assumes "available_nodes self = pre @ b # post"
      and "collect_nodes w self pre (log_event (AgentEnter (private_keys self)) st) = (None, st1)"
      and "w_connect w \<lparr>c_host = ip_of b, c_user = image_user b, c_port = PyNone,
              c_policy = RejectPolicy, c_known_hosts = cl_known_hosts_file self,
              c_bastion = None\<rparr> = Some e"
  shows "Collector_run w self st = (Some e, log_event AgentExit st1)"
proof -
  have "collect w self (ip_of b) (image_user b) None st1 = (Some e, st1)"
    using assms(3) collect_connect_fails [of w "ip_of b" "image_user b" None self e st1]
    by simp
  then have "collect_nodes w self (b # post) st1 = (Some e, st1)"
    by simp
  with assms(2) have "collect_nodes w self (pre @ b # post)
       (log_event (AgentEnter (private_keys self)) st) = (Some e, st1)"
    by (simp add: collect_nodes_append)
  with assms(1) show ?thesis
    by (simp add: Collector_run_def)
qed

theorem Collector_run_node_failure_propagates_witness:
  "available_nodes cluster3 = [node_a] @ node_b # [node_c]
   \<and> collect_nodes world3 cluster3 [node_a]
        (log_event (AgentEnter (private_keys cluster3)) st0)
      = (None, \<lparr>cache = Map.empty,
                trace = [AgentEnter {''key_a''},
                         Connect (client_of ''10.0.0.1'' ''ubuntu'' PyNone),
                         Close ''10.0.0.1'']\<rparr>)
   \<and> Collector_run world3 cluster3 st0 =
      (Some (ConnectivityError ''unreachable''),
       log_event AgentExit
         \<lparr>cache = Map.empty,
          trace = [AgentEnter {''key_a''},
                   Connect (client_of ''10.0.0.1'' ''ubuntu'' PyNone),
                   Close ''10.0.0.1'']\<rparr>)"
  using Collector_run_node_failure_propagates
      [of cluster3 "[node_a]" node_b "[node_c]" world3 st0
          "\<lparr>cache = Map.empty,
            trace = [AgentEnter {''key_a''},
                     Connect (client_of ''10.0.0.1'' ''ubuntu'' PyNone),
                     Close ''10.0.0.1'']\<rparr>"
          "ConnectivityError ''unreachable''"]
  by (simp add: collector_eval)

subsection \<open>The host-key policy of the sessions\<close>

text \<open>
  \<open>_get_ssh_client\<close> itself chooses the policy by its \<open>bastion_host\<close> argument alone;
  but every session \<open>_collect\<close> opens is configured without bastion, with the rejecting
  policy, and with the bastion it was given as port.
\<close>

lemma get_ssh_client_policy:
  "get_ssh_client w self host user port bastion_host = Inr c \<Longrightarrow>
   c_policy c = (if truthy bastion_host then AutoAddPolicy else RejectPolicy)
   \<and> c_bastion c = bastion_host"
  by (auto simp: get_ssh_client_def Let_def split: option.splits)

lemma collect_session_config:
  "get_ssh_client w self host user (pyval_of_host bastion_host) None = Inr c \<Longrightarrow>
   c_policy c = RejectPolicy \<and> c_bastion c = None \<and> c_port c = pyval_of_host bastion_host"
  by (auto simp: get_ssh_client_def Let_def split: option.splits)

text \<open>
  C7. On a cluster whose shared filesystem resolves to a stack with a NAT device
  (54.0.0.9) and a metadata server (10.0.1.5), the session to the metadata server is
  configured with the NAT device's address as port, without bastion and with the
  rejecting host-key policy.
\<close>

theorem Collector_run_lustre_session_rejects:
  "Collector_run world_lustre cluster1 st0 =
     (None,
      \<lparr>cache = Map.empty,
       trace = [AgentEnter {''key_a''},
                Connect (client_of ''10.0.0.1'' ''ubuntu'' PyNone), Close ''10.0.0.1'',
                Connect (client_of ''10.0.0.1'' ''ubuntu'' (PyInt 22)), Close ''10.0.0.1'',
                Connect \<lparr>c_host = ''10.0.1.5'', c_user = ''ec2-user'',
                         c_port = PyStr ''54.0.0.9'', c_policy = RejectPolicy,
                         c_known_hosts = ''known_hosts'', c_bastion = None\<rparr>,
                Close ''10.0.1.5'',
                AgentExit]\<rparr>)"
  by (simp add: collector_eval)


section \<open>The Parser\<close>

subsection \<open>Facts about the loop\<close>

lemma py_min_Min: "xs \<noteq> [] \<Longrightarrow> py_min xs = Inr (Min (set xs))"
  by (cases xs) (simp_all add: py_min_def Min.set_eq_fold [symmetric])

lemma py_max_Max: "xs \<noteq> [] \<Longrightarrow> py_max xs = Inr (Max (set xs))"
  by (cases xs) (simp_all add: py_max_def Max.set_eq_fold [symmetric])

lemma time_frame_nonempty:
  "timings \<noteq> [] \<Longrightarrow>
   time_frame timings = Inr \<lparr>tf_start = Min (fst ` set timings), tf_end = Max (fst ` set timings),
                             tf_steps = map fst timings\<rparr>"
  by (simp add: time_frame_def py_min_Min py_max_Max)

lemma time_frame_empty: "time_frame [] = Inl (ValueError ''min() arg is an empty sequence'')"
  by (simp add: time_frame_def py_min_def)

lemma merge_rows_assoc: "merge_rows (merge_rows old a) b = merge_rows old (a @ b)"
  by (auto simp: merge_rows_def split: option.splits)

lemma merge_rows_Nil [simp]: "merge_rows old [] = old"
  by (simp add: merge_rows_def)

lemma rows_of_Inr: "load_collectl (path_join rawdir f) (tf_start tf) (tf_end tf) = Inr (d, h) \<Longrightarrow>
   rows_of load_collectl rawdir tf f = d"
  by (simp add: rows_of_def)

lemma parse_loop_rows:
  "parse_loop load_collectl rawdir tf files (D, H) = Inr (D', H') \<Longrightarrow>
   D' host = merge_rows (D host)
               (concat (map (rows_of load_collectl rawdir tf) (host_files files host)))"
proof (induction files arbitrary: D H)
  case Nil
  then show ?case by (simp add: host_files_def)
next
  case (Cons f files)
  show ?case
  proof (cases "endswith f COLLECTL_SUFFIX")
    case False
    with Cons show ?thesis by (simp add: host_files_def)
  next
    case True
    show ?thesis
    proof (cases "load_collectl (path_join rawdir f) (tf_start tf) (tf_end tf)")
      case (Inl e)
      with True Cons.prems show ?thesis by simp
    next
      case (Inr dh)
      obtain d h where dh: "dh = (d, h)" by (cases dh)
      have ro: "rows_of load_collectl rawdir tf f = d"
        using Inr dh by (simp add: rows_of_def)
      show ?thesis
      proof (cases "d = []")
        case True
        with \<open>endswith f COLLECTL_SUFFIX\<close> Inr dh Cons ro show ?thesis
          by (simp add: host_files_def)
      next
        case False
        let ?D1 = "(case D (host_key f) of None \<Rightarrow> D(host_key f \<mapsto> d)
                     | Some old \<Rightarrow> D(host_key f \<mapsto> old @ d))"
        have step: "parse_loop load_collectl rawdir tf files (?D1, H(host_key f \<mapsto> h)) = Inr (D', H')"
          using Cons.prems True Inr dh False by (simp add: Let_def split: option.splits)
        have IH: "D' host = merge_rows (?D1 host)
               (concat (map (rows_of load_collectl rawdir tf) (host_files files host)))"
          using Cons.IH [OF step] .
        have D1: "?D1 host = (if host_key f = host then merge_rows (D host) d else D host)"
          using False by (auto simp: merge_rows_def split: option.splits)
        show ?thesis
          using IH D1 True ro by (simp add: host_files_def merge_rows_assoc)
      qed
    qed
  qed
qed

lemma parse_loop_dom:
  "parse_loop load_collectl rawdir tf files (D, H) = Inr (D', H') \<Longrightarrow> dom D = dom H \<Longrightarrow>
   dom D' = dom H'"
proof (induction files arbitrary: D H)
  case Nil
  then show ?case by simp
next
  case (Cons f files)
  show ?case
  proof (cases "endswith f COLLECTL_SUFFIX")
    case False
    with Cons show ?thesis by simp
  next
    case True
    show ?thesis
    proof (cases "load_collectl (path_join rawdir f) (tf_start tf) (tf_end tf)")
      case (Inl e)
      with True Cons.prems show ?thesis by simp
    next
      case (Inr dh)
      obtain d h where dh: "dh = (d, h)" by (cases dh)
      show ?thesis
      proof (cases "d = []")
        case True
        with \<open>endswith f COLLECTL_SUFFIX\<close> Inr dh Cons show ?thesis by simp
      next
        case False
        let ?D1 = "(case D (host_key f) of None \<Rightarrow> D(host_key f \<mapsto> d)
                     | Some old \<Rightarrow> D(host_key f \<mapsto> old @ d))"
        have step: "parse_loop load_collectl rawdir tf files (?D1, H(host_key f \<mapsto> h)) = Inr (D', H')"
          using Cons.prems True Inr dh False by (simp add: Let_def split: option.splits)
        have "dom ?D1 = dom (H(host_key f \<mapsto> h))"
          using Cons.prems(2) by (auto split: option.splits)
        then show ?thesis by (rule Cons.IH [OF step])
      qed
    qed
  qed
qed

lemma parse_loop_error:
  "f \<in> set files \<Longrightarrow> endswith f COLLECTL_SUFFIX \<Longrightarrow>
   load_collectl (path_join rawdir f) (tf_start tf) (tf_end tf) = Inl e \<Longrightarrow>
   \<exists>f' e'. f' \<in> set files \<and> endswith f' COLLECTL_SUFFIX
      \<and> load_collectl (path_join rawdir f') (tf_start tf) (tf_end tf) = Inl e'
      \<and> parse_loop load_collectl rawdir tf files acc = Inl e'"
proof (induction files arbitrary: acc)
  case Nil
  then show ?case by simp
next
  case (Cons g files)
  obtain D H where acc: "acc = (D, H)" by (cases acc)
  show ?case
  proof (cases "endswith g COLLECTL_SUFFIX")
    case False
    with Cons.prems have "f \<in> set files" by auto
    from Cons.IH [OF this Cons.prems(2,3)] False acc show ?thesis
      by (metis list.set_intros(2) parse_loop.simps(2))
  next
    case True
    show ?thesis
    proof (cases "load_collectl (path_join rawdir g) (tf_start tf) (tf_end tf)")
      case (Inl e0)
      with True acc show ?thesis by (intro exI [of _ g] exI [of _ e0]) simp
    next
      case (Inr dh)
      with Cons.prems have fin: "f \<in> set files" by auto
      obtain d h where dh: "dh = (d, h)" by (cases dh)
      have "\<exists>acc'. parse_loop load_collectl rawdir tf (g # files) acc
                 = parse_loop load_collectl rawdir tf files acc'"
        using True Inr dh acc by (auto simp: Let_def split: option.splits)
      then obtain acc' where eq: "parse_loop load_collectl rawdir tf (g # files) acc
                 = parse_loop load_collectl rawdir tf files acc'" ..
      from Cons.IH [OF fin Cons.prems(2,3), of acc'] eq show ?thesis
        by (metis list.set_intros(2))
    qed
  qed
qed



lemmas parser_eval =
  Parser_run_def time_frame_def py_min_def py_max_def endswith_def COLLECTL_SUFFIX_def
  host_key_def matches_stamp_def is_digit_def path_join_def rows_of_def host_files_def
  window_load_def corrupt_load_def listing3_def w1a_def w1m_def w1b_def timings_ts_def

lemma sort_listing3: "sort listing3 = [''notes.txt'', w1a, w1m, w1b]"
  by (simp add: listing3_def w1a_def w1b_def w1m_def)

lemma host_key_strip:
  assumes "length d = 8" and "list_all is_digit d" and "length t = 6" and "list_all is_digit t"
  shows "host_key (h @ ''-'' @ d @ ''-'' @ t @ ''.raw.gz'') = h"
  using assms by (simp add: host_key_def matches_stamp_def)

lemma Parser_run_Inr:
  assumes "Parser_run load_collectl timings rawdir listdir = Inr (dfs, hw, steps)"
  obtains tf where "time_frame timings = Inr tf"
    and "parse_loop load_collectl rawdir tf (sort listdir) (Map.empty, Map.empty) = Inr (dfs, hw)"
    and "steps = tf_steps tf"
  using assms by (auto simp: Parser_run_def split: sum.splits)

lemma window_run:
  "Parser_run window_load timings_ts ''/raw'' listing3 =
     Inr ([''web1'' \<mapsto> [20, 40, 30, 45]], [''web1'' \<mapsto> ''4 cpus''], [10, 50, 30])"
  by (simp add: parser_eval Let_def)

lemma time_frame_ts:
  "time_frame timings_ts = Inr \<lparr>tf_start = 10, tf_end = 50, tf_steps = [10, 50, 30]\<rparr>"
  by (simp add: parser_eval)

lemma web1_rows:
  "concat (map (rows_of window_load ''/raw'' \<lparr>tf_start = 10, tf_end = 50, tf_steps = [10, 50, 30]\<rparr>)
                (host_files [''notes.txt'', w1a, w1m, w1b] ''web1'')) = [20, 40, 30, 45]"
  by (simp add: parser_eval)

subsection \<open>The time window\<close>

lemma rows_of_within:
  "decoder_within load_collectl row_time \<Longrightarrow> r \<in> set (rows_of load_collectl rawdir tf f) \<Longrightarrow>
   tf_start tf \<le> row_time r \<and> row_time r \<le> tf_end tf"
proof (cases "load_collectl (path_join rawdir f) (tf_start tf) (tf_end tf)")
  case (Inl e)
  assume "r \<in> set (rows_of load_collectl rawdir tf f)"
  with Inl show ?thesis by (simp add: rows_of_def)
next
  case (Inr dh)
  assume within: "decoder_within load_collectl row_time"
    and r: "r \<in> set (rows_of load_collectl rawdir tf f)"
  obtain d h where dh: "dh = (d, h)" by (cases dh)
  from r Inr dh have "r \<in> set d" by (simp add: rows_of_def)
  with within Inr dh show ?thesis
    unfolding decoder_within_def by blast
qed

text \<open>
  C4. The timing log is the dictionary the log decoder returns: its keys are the
  checkpoint timestamps. For every log, the window the Parser derives has as start the
  least and as end the greatest checkpoint timestamp, and its marks are the timestamps
  (a non-empty log always yields a window; for the checkpoints a, b, c at 10, 50, 30 it
  is 10 to 50). The Parser hands start and end to the telemetry decoder and keeps the
  rows it returns, so with a decoder that returns only rows inside the bounds it is
  given, no row outside the window appears in any returned series.
\<close>

theorem time_frame_window:
  fixes timings :: "('k::linorder \<times> 'v) list"
  shows "(timings \<noteq> [] \<longrightarrow> (\<exists>tf. time_frame timings = Inr tf))
       \<and> (\<forall>tf. time_frame timings = Inr tf \<longrightarrow>
             tf_start tf = Min (fst ` set timings) \<and> tf_end tf = Max (fst ` set timings)
             \<and> tf_steps tf = map fst timings)
       \<and> (decoder_within load_collectl row_time \<longrightarrow>
          Parser_run load_collectl timings rawdir listdir
            = Inr (data_frames, hardware_info, steps) \<longrightarrow>
          (\<forall>host rows. data_frames host = Some rows \<longrightarrow>
             (\<forall>r \<in> set rows. Min (fst ` set timings) \<le> row_time r
                             \<and> row_time r \<le> Max (fst ` set timings))))"
proof (intro conjI impI allI ballI)
  let ?tf = "\<lparr>tf_start = Min (fst ` set timings), tf_end = Max (fst ` set timings),
              tf_steps = map fst timings\<rparr>"
  show "\<exists>tf. time_frame timings = Inr tf" if "timings \<noteq> []"
    using that by (simp add: time_frame_nonempty)
  have derived: "tf = ?tf" if "time_frame timings = Inr tf" for tf
  proof (cases "timings = []")
    case True
    with that show ?thesis by (simp add: time_frame_empty)
  next
    case False
    with that show ?thesis by (simp add: time_frame_nonempty)
  qed
  show "tf_start tf = Min (fst ` set timings)" if "time_frame timings = Inr tf" for tf
    using derived [OF that] by simp
  show "tf_end tf = Max (fst ` set timings)" if "time_frame timings = Inr tf" for tf
    using derived [OF that] by simp
  show "tf_steps tf = map fst timings" if "time_frame timings = Inr tf" for tf
    using derived [OF that] by simp
  fix host rows r
  assume within: "decoder_within load_collectl row_time"
    and run: "Parser_run load_collectl timings rawdir listdir
                = Inr (data_frames, hardware_info, steps)"
    and rows: "data_frames host = Some rows" and r: "r \<in> set rows"
  from run obtain tf where tf: "time_frame timings = Inr tf"
    and loop0: "parse_loop load_collectl rawdir tf (sort listdir) (Map.empty, Map.empty)
                 = Inr (data_frames, hardware_info)"
    by (rule Parser_run_Inr)
  from derived [OF tf] loop0
  have loop: "parse_loop load_collectl rawdir ?tf (sort listdir) (Map.empty, Map.empty)
                 = Inr (data_frames, hardware_info)"
    by simp
  have "rows = concat (map (rows_of load_collectl rawdir ?tf) (host_files (sort listdir) host))"
    using parse_loop_rows [OF loop, of host] rows
    by (simp add: merge_rows_def split: if_splits)
  with r obtain f where "r \<in> set (rows_of load_collectl rawdir ?tf f)"
    by auto
  from rows_of_within [OF within this]
  show "Min (fst ` set timings) \<le> row_time r" and "row_time r \<le> Max (fst ` set timings)"
    by simp_all
qed

lemma window_load_within: "decoder_within window_load (\<lambda>t. t)"
  by (auto simp: decoder_within_def window_load_def split: if_splits)

text \<open>
  The checkpoints a, b, c at 10, 50, 30: the window is 10 to 50, and of the decoded
  timestamps 5, 20, 40 and 30, 45, 70 only 20, 40, 30, 45 are returned.
\<close>

theorem time_frame_window_witness:
  "timings_ts \<noteq> []
   \<and> time_frame timings_ts = Inr \<lparr>tf_start = 10, tf_end = 50, tf_steps = [10, 50, 30]\<rparr>
   \<and> Min (fst ` set timings_ts) = 10 \<and> Max (fst ` set timings_ts) = 50
   \<and> Parser_run window_load timings_ts ''/raw'' listing3 =
       Inr ([''web1'' \<mapsto> [20, 40, 30, 45]], [''web1'' \<mapsto> ''4 cpus''], [10, 50, 30])
   \<and> Min (fst ` set timings_ts) \<le> 20 \<and> 20 \<le> Max (fst ` set timings_ts)
   \<and> Min (fst ` set timings_ts) \<le> 45 \<and> 45 \<le> Max (fst ` set timings_ts)"
proof -
  note window = time_frame_window [of timings_ts window_load "\<lambda>t. t" "''/raw''" listing3
        "[''web1'' \<mapsto> [20, 40, 30, 45]]" "[''web1'' \<mapsto> ''4 cpus'']" "[10, 50, 30]"]
  have ne: "timings_ts \<noteq> []"
    by (simp add: timings_ts_def)
  have bounds: "Min (fst ` set timings_ts) = 10 \<and> Max (fst ` set timings_ts) = 50"
    using conjunct1 [OF conjunct2 [OF window]] time_frame_ts by fastforce
  have "\<forall>host rows. [''web1'' \<mapsto> [20, 40, 30, 45 :: int]] host = Some rows \<longrightarrow>
          (\<forall>r \<in> set rows. Min (fst ` set timings_ts) \<le> r \<and> r \<le> Max (fst ` set timings_ts))"
    using conjunct2 [OF conjunct2 [OF window]] window_load_within window_run
    by blast
  then have "\<forall>r \<in> set [20, 40, 30, 45 :: int].
          Min (fst ` set timings_ts) \<le> r \<and> r \<le> Max (fst ` set timings_ts)"
    by (rule allE [where x = "''web1''"]) simp
  then have "Min (fst ` set timings_ts) \<le> 20 \<and> 20 \<le> Max (fst ` set timings_ts)
      \<and> Min (fst ` set timings_ts) \<le> 45 \<and> 45 \<le> Max (fst ` set timings_ts)"
    by simp
  then show ?thesis
    using ne bounds window_run time_frame_ts by blast
qed

subsection \<open>Host keys and per-host series\<close>

text \<open>
  C5. The host key of a file named host, dash, eight digits, dash, six digits, .raw.gz is
  the host part; and in the result of a run the series of a host is the concatenation of
  the rows decoded from the files of that host, in the order of the sorted listing (a
  host whose files give no rows has no series).
\<close>

theorem Parser_run_host_series:
  assumes "Parser_run load_collectl timings rawdir listdir = Inr (data_frames, hardware_info, steps)"
  shows "(\<forall>h d t. length d = 8 \<and> list_all is_digit d \<and> length t = 6 \<and> list_all is_digit t
            \<longrightarrow> host_key (h @ ''-'' @ d @ ''-'' @ t @ ''.raw.gz'') = h)
       \<and> (\<exists>tf. time_frame timings = Inr tf
            \<and> (\<forall>host. data_frames host =
                  (let rows = concat (map (rows_of load_collectl rawdir tf)
                                        (host_files (sort listdir) host))
                   in if rows = [] then None else Some rows)))"
proof -
  from assms obtain tf where tf: "time_frame timings = Inr tf"
    and loop: "parse_loop load_collectl rawdir tf (sort listdir) (Map.empty, Map.empty)
                 = Inr (data_frames, hardware_info)"
    by (rule Parser_run_Inr)
  have "data_frames host =
          (let rows = concat (map (rows_of load_collectl rawdir tf)
                                (host_files (sort listdir) host))
           in if rows = [] then None else Some rows)" for host
    using parse_loop_rows [OF loop, of host] by (simp add: merge_rows_def Let_def)
  moreover have "\<forall>h d t. length d = 8 \<and> list_all is_digit d \<and> length t = 6 \<and> list_all is_digit t
            \<longrightarrow> host_key (h @ ''-'' @ d @ ''-'' @ t @ ''.raw.gz'') = h"
    using host_key_strip by blast
  ultimately show ?thesis using tf by blast
qed

theorem Parser_run_host_series_witness:
  "Parser_run window_load timings_ts ''/raw'' listing3 =
     Inr ([''web1'' \<mapsto> [20, 40, 30, 45]], [''web1'' \<mapsto> ''4 cpus''], [10, 50, 30])
   \<and> host_key ''web1-20230101-000000.raw.gz'' = ''web1''
   \<and> host_key ''web1-20230102-000000.raw.gz'' = ''web1''
   \<and> [''web1'' \<mapsto> [20, 40, 30, 45 :: int]] ''web1'' =
       Some (concat (map (rows_of window_load ''/raw''
                            \<lparr>tf_start = 10, tf_end = 50, tf_steps = [10, 50, 30]\<rparr>)
                         (host_files (sort listing3) ''web1'')))"
proof -
  note series = Parser_run_host_series [OF window_run]
  have "host_key ''web1-20230101-000000.raw.gz'' = ''web1''"
    using conjunct1 [OF series, rule_format, of "''20230101''" "''000000''" "''web1''"]
    by (simp add: is_digit_def)
  moreover have "host_key ''web1-20230102-000000.raw.gz'' = ''web1''"
    using conjunct1 [OF series, rule_format, of "''20230102''" "''000000''" "''web1''"]
    by (simp add: is_digit_def)
  moreover have "[''web1'' \<mapsto> [20, 40, 30, 45 :: int]] ''web1'' =
       Some (concat (map (rows_of window_load ''/raw''
                            \<lparr>tf_start = 10, tf_end = 50, tf_steps = [10, 50, 30]\<rparr>)
                         (host_files (sort listing3) ''web1'')))"
    using conjunct2 [OF series] by (simp add: time_frame_ts sort_listing3 web1_rows)
  ultimately show ?thesis using window_run by blast
qed

subsection \<open>A file that cannot be decoded\<close>

text \<open>
  C6, as claimed, fails: with three telemetry files of which the second in sorted order
  cannot be decoded, the run raises the decoder's error and returns nothing for the
  other two.
\<close>

theorem Parser_run_corrupt_file_counterexample:
  "Parser_run corrupt_load timings_ts ''/raw'' listing3 = Inl (DecodeError ''corrupt'')"
  by (simp add: parser_eval Let_def)

text \<open>
  C6, amended. The Parser does not catch a decoder error: when the decoder raises for
  some telemetry file of the cache, the run raises the decoder's error for one such file
  and returns no result.
\<close>

theorem Parser_run_decode_error_propagates:
  assumes "time_frame timings = Inr tf"
      and "f \<in> set listdir"
      and "endswith f COLLECTL_SUFFIX"
      and "load_collectl (path_join rawdir f) (tf_start tf) (tf_end tf) = Inl e"
  shows "\<exists>f' e'. f' \<in> set listdir \<and> endswith f' COLLECTL_SUFFIX
           \<and> load_collectl (path_join rawdir f') (tf_start tf) (tf_end tf) = Inl e'
           \<and> Parser_run load_collectl timings rawdir listdir = Inl e'"
proof -
  from assms(2) have "f \<in> set (sort listdir)"
    by simp
  from parse_loop_error [of f "sort listdir" load_collectl rawdir tf e "(Map.empty, Map.empty)"]
    this assms(3,4)
  obtain f' e' where "f' \<in> set (sort listdir)" and "endswith f' COLLECTL_SUFFIX"
    and "load_collectl (path_join rawdir f') (tf_start tf) (tf_end tf) = Inl e'"
    and "parse_loop load_collectl rawdir tf (sort listdir) (Map.empty, Map.empty) = Inl e'"
    by blast
  with assms(1) show ?thesis
    by (intro exI [of _ f'] exI [of _ e']) (simp add: Parser_run_def)
qed

theorem Parser_run_decode_error_propagates_witness:
  "time_frame timings_ts = Inr \<lparr>tf_start = 10, tf_end = 50, tf_steps = [10, 50, 30]\<rparr>
   \<and> w1m \<in> set listing3
   \<and> endswith w1m COLLECTL_SUFFIX
   \<and> corrupt_load (path_join ''/raw'' w1m) 10 50 = Inl (DecodeError ''corrupt'')
   \<and> (\<exists>e'. Parser_run corrupt_load timings_ts ''/raw'' listing3 = Inl e')"
proof -
  have a: "w1m \<in> set listing3" by (simp add: listing3_def)
  have b: "endswith w1m COLLECTL_SUFFIX" by (simp add: parser_eval)
  have c: "corrupt_load (path_join ''/raw'' w1m)
             (tf_start \<lparr>tf_start = 10, tf_end = 50, tf_steps = [10, 50, 30]\<rparr>)
             (tf_end \<lparr>tf_start = 10, tf_end = 50, tf_steps = [10, 50, 30]\<rparr>)
           = Inl (DecodeError ''corrupt'')"
    by (simp add: parser_eval)
  from Parser_run_decode_error_propagates
         [of timings_ts "\<lparr>tf_start = 10, tf_end = 50, tf_steps = [10, 50, 30]\<rparr>"
             w1m listing3 corrupt_load "''/raw''" "DecodeError ''corrupt''"]
       time_frame_ts a b c
  have "\<exists>e'. Parser_run corrupt_load timings_ts ''/raw'' listing3 = Inl e'"
    by blast
  with a b c time_frame_ts show ?thesis by simp
qed

subsection \<open>The keys of the two maps\<close>

text \<open>
  C10. The two maps returned by a run have the same keys: the host keys of the telemetry
  files that decode to at least one row.
\<close>

theorem Parser_run_same_keys:
  assumes "Parser_run load_collectl timings rawdir listdir = Inr (data_frames, hardware_info, steps)"
  shows "dom data_frames = dom hardware_info
       \<and> (\<exists>tf. time_frame timings = Inr tf
            \<and> dom data_frames =
                host_key ` {f \<in> set listdir. endswith f COLLECTL_SUFFIX
                                             \<and> rows_of load_collectl rawdir tf f \<noteq> []})"
proof -
  from assms obtain tf where tf: "time_frame timings = Inr tf"
    and loop: "parse_loop load_collectl rawdir tf (sort listdir) (Map.empty, Map.empty)
                 = Inr (data_frames, hardware_info)"
    by (rule Parser_run_Inr)
  have same: "dom data_frames = dom hardware_info"
    using parse_loop_dom [OF loop] by simp
  have "(data_frames host \<noteq> None) =
          (host \<in> host_key ` {f \<in> set listdir. endswith f COLLECTL_SUFFIX
                                             \<and> rows_of load_collectl rawdir tf f \<noteq> []})" for host
    using parse_loop_rows [OF loop, of host]
    by (auto simp: merge_rows_def host_files_def image_iff)
  then have "dom data_frames =
      host_key ` {f \<in> set listdir. endswith f COLLECTL_SUFFIX
                                   \<and> rows_of load_collectl rawdir tf f \<noteq> []}"
    by (auto simp: dom_def)
  with same tf show ?thesis by blast
qed

theorem Parser_run_same_keys_witness:
  "Parser_run window_load timings_ts ''/raw'' listing3 =
     Inr ([''web1'' \<mapsto> [20, 40, 30, 45]], [''web1'' \<mapsto> ''4 cpus''], [10, 50, 30])
   \<and> dom [''web1'' \<mapsto> [20, 40, 30, 45 :: int]] = dom [''web1'' \<mapsto> ''4 cpus'']"
  using Parser_run_same_keys [OF window_run] window_run by blast


section \<open>Remote execution\<close>

text \<open>
  C8, as claimed, fails: an exception of \<open>exec_command\<close> that is not a
  \<open>paramiko.SSHException\<close>, and an exception raised while reading the output,
  propagate.
\<close>

theorem execute_remote_socket_error_counterexample:
  "execute_remote reset_conn ''echo $HOME'' = Inl (SocketError ''Connection reset by peer'')
   \<and> execute_remote stalled_conn ''echo $HOME'' = Inl (SocketError ''timed out'')"
  by (simp add: execute_remote_def reset_conn_def stalled_conn_def)

text \<open>
  C8, amended. When the command runs and both channel files can be read, the result is
  the pair of the output and the error output. When \<open>exec_command\<close> raises
  \<open>paramiko.SSHException\<close>, the result is the pair of \<open>None\<close> and the exception. Any
  other exception of \<open>exec_command\<close>, and any exception raised while reading the output
  or the error output, propagates.
\<close>

theorem execute_remote_cases:
  "(connection command = Inr (stdin, Inr out, Inr err) \<longrightarrow>
      execute_remote connection command = Inr (Some out, Inr err))
   \<and> (connection command = Inl (SSHException m) \<longrightarrow>
      execute_remote connection command = Inr (None, Inl (SSHException m)))
   \<and> (connection command = Inl exc \<and> \<not> is_SSHException exc \<longrightarrow>
      execute_remote connection command = Inl exc)
   \<and> (connection command = Inr (stdin, Inl exc, stderr) \<longrightarrow>
      execute_remote connection command = Inl exc)
   \<and> (connection command = Inr (stdin, Inr out, Inl exc) \<longrightarrow>
      execute_remote connection command = Inl exc)"
  by (simp add: execute_remote_def)

theorem execute_remote_cases_witness:
  "home_conn ''echo $HOME'' = Inr (Inr [], Inr ''/home/ubuntu'', Inr [])
   \<and> execute_remote home_conn ''echo $HOME'' = Inr (Some ''/home/ubuntu'', Inr [])
   \<and> closed_conn ''echo $HOME'' = Inl (SSHException ''Channel closed.'')
   \<and> execute_remote closed_conn ''echo $HOME'' = Inr (None, Inl (SSHException ''Channel closed.''))
   \<and> reset_conn ''echo $HOME'' = Inl (SocketError ''Connection reset by peer'')
   \<and> \<not> is_SSHException (SocketError ''Connection reset by peer'')
   \<and> execute_remote reset_conn ''echo $HOME'' = Inl (SocketError ''Connection reset by peer'')
   \<and> stalled_conn ''echo $HOME'' = Inr (Inr [], Inl (SocketError ''timed out''), Inr [])
   \<and> execute_remote stalled_conn ''echo $HOME'' = Inl (SocketError ''timed out'')"
  using execute_remote_cases [of home_conn "''echo $HOME''" "Inr []" "''/home/ubuntu''" "[]"]
    execute_remote_cases [of closed_conn "''echo $HOME''" _ _ _ "''Channel closed.''"]
    execute_remote_cases [of reset_conn "''echo $HOME''" _ _ _ _
                             "SocketError ''Connection reset by peer''"]
    execute_remote_cases [of stalled_conn "''echo $HOME''" "Inr []" _ _ _
                             "SocketError ''timed out''" "Inr []"]
  by (simp add: home_conn_def closed_conn_def reset_conn_def stalled_conn_def)

section \<open>The security-group section of the Azure report\<close>

lemma security_groups_not_200:
  "status_code resp \<noteq> 200 \<Longrightarrow>
   security_groups fromstring resp lg = ([], lg @ [(Error, ''Failed to get security groups !'')])"
  by (simp add: security_groups_def)

lemma security_groups_unparsable:
  "status_code resp = 200 \<Longrightarrow> fromstring (resp_text resp) = None \<Longrightarrow>
   security_groups fromstring resp lg = ([], lg @ [(Exception, ''ParseError'')])"
  by (simp add: security_groups_def)

lemma add_field_fresh:
  "name \<notin> set (map s_name rep) \<Longrightarrow> s_name s = name \<Longrightarrow>
   add_field name field (rep @ [s]) = rep @ [s\<lparr>s_fields := s_fields s @ [field]\<rparr>]"
proof -
  assume fresh: "name \<notin> set (map s_name rep)" and s: "s_name s = name"
  have "map (\<lambda>x. if s_name x = name then x\<lparr>s_fields := s_fields x @ [field]\<rparr> else x) rep = rep"
    using fresh by (induction rep) auto
  with s show ?thesis by (simp add: add_field_def)
qed

lemma add_security_groups_info_empty:
  assumes "''sg'' \<notin> set (map s_name rep)"
      and "fst (security_groups fromstring resp lg) = []"
  shows "add_security_groups_info fromstring resp expected_sg_name (rep, lg) =
           Inr (rep @ [sg_section []],
                snd (security_groups fromstring resp lg)
                  @ [(Warning, ''No security groups defined.'')])"
proof -
  obtain sgs lg1 where sg: "security_groups fromstring resp lg = (sgs, lg1)"
    by (cases "security_groups fromstring resp lg")
  with assms(2) have "sgs = []" by simp
  with assms(1) sg show ?thesis
    by (simp add: add_security_groups_info_def add_section_def add_field_fresh sg_section_def)
qed

text \<open>
  C9. When the response is not 2xx, or cannot be parsed, or the query yields no security
  group, the query result is empty (a failure is logged, not raised), and the report gets
  its section \<open>sg\<close> with the one field and no item, a warning is logged and the method
  returns.
\<close>

theorem security_groups_failure_gives_empty_section:
  assumes "''sg'' \<notin> set (map s_name rep)"
      and "\<not> (200 \<le> status_code resp \<and> status_code resp < 300)
           \<or> fromstring (resp_text resp) = None
           \<or> fst (security_groups fromstring resp lg) = []"
  shows "fst (security_groups fromstring resp lg) = []
       \<and> (status_code resp \<noteq> 200 \<longrightarrow>
            snd (security_groups fromstring resp lg)
              = lg @ [(Error, ''Failed to get security groups !'')])
       \<and> (status_code resp = 200 \<and> fromstring (resp_text resp) = None \<longrightarrow>
            snd (security_groups fromstring resp lg) = lg @ [(Exception, ''ParseError'')])
       \<and> add_security_groups_info fromstring resp expected_sg_name (rep, lg) =
           Inr (rep @ [sg_section []],
                snd (security_groups fromstring resp lg)
                  @ [(Warning, ''No security groups defined.'')])"
proof -
  have empty: "fst (security_groups fromstring resp lg) = []"
    using assms(2)
    by (cases "status_code resp = 200")
       (auto simp: security_groups_not_200 security_groups_unparsable)
  from add_security_groups_info_empty [OF assms(1) empty] empty show ?thesis
    by (simp add: security_groups_not_200 security_groups_unparsable)
qed

theorem security_groups_failure_gives_empty_section_witness:
  "''sg'' \<notin> set (map s_name [cluster_section])
   \<and> \<not> (200 \<le> status_code \<lparr>status_code = 503, resp_text = ''Service Unavailable''\<rparr>
         \<and> status_code \<lparr>status_code = 503, resp_text = ''Service Unavailable''\<rparr> < 300)
   \<and> add_security_groups_info sg_parse \<lparr>status_code = 503, resp_text = ''Service Unavailable''\<rparr>
        (Some ''bcbio-sg'') ([cluster_section], []) =
       Inr ([cluster_section, sg_section []],
            [(Error, ''Failed to get security groups !''),
             (Warning, ''No security groups defined.'')])
   \<and> add_security_groups_info no_parse \<lparr>status_code = 200, resp_text = ''<groups''\<rparr>
        (Some ''bcbio-sg'') ([cluster_section], []) =
       Inr ([cluster_section, sg_section []],
            [(Exception, ''ParseError''), (Warning, ''No security groups defined.'')])"
  using security_groups_failure_gives_empty_section
      [of "[cluster_section]" "\<lparr>status_code = 503, resp_text = ''Service Unavailable''\<rparr>"
          sg_parse "[]" "Some ''bcbio-sg''"]
    security_groups_failure_gives_empty_section
      [of "[cluster_section]" "\<lparr>status_code = 200, resp_text = ''<groups''\<rparr>"
          no_parse "[]" "Some ''bcbio-sg''"]
  by (simp add: cluster_section_def no_parse_def)

text \<open>For comparison, a response that lists security groups fills the section.\<close>

lemma add_security_groups_info_listed:
  "add_security_groups_info sg_parse \<lparr>status_code = 200, resp_text = ''<groups/>''\<rparr>
     (Some ''bcbio-sg'') ([cluster_section], []) =
   Inr ([cluster_section, sg_section [Some ''bcbio-sg'', Some ''default'']],
        [(Info, ''Expected security group exists.'')])"
  by (simp add: add_security_groups_info_def add_section_def add_field_def add_items_def
        security_groups_def sg_parse_def sg_doc_def findall_def find_child_def set_add_def
        azure_tag_def cluster_section_def sg_section_def)

end
